theory Spec2Isabelle
  imports Main "HOL-Library.AList"
begin

section \<open>Python values and strings\<close>

text \<open>
  Text is modelled as \<^typ>\<open>string\<close>, a character being a code point below 256. The
  keyword arguments and the
  dictionaries of the scripts are association lists in insertion order
  (\<^const>\<open>AList.update\<close> replaces in place or appends, as a Python dict does).
\<close>

datatype val = VNone | VBool bool | VInt int | VStr string

datatype error =
    AssertionError
  | RuntimeError string
  | KeyError string
  | ValueError string
  | TypeError string
  | NoSectionError string
  | OtherError string

type_synonym kwargs = "(string \<times> val) list"
type_synonym sdict = "(string \<times> string) list"
type_synonym ini = "(string \<times> sdict) list"

fun truthy :: "val \<Rightarrow> bool" where
  "truthy VNone = False"
| "truthy (VBool b) = b"
| "truthy (VInt n) = (n \<noteq> 0)"
| "truthy (VStr s) = (s \<noteq> [])"

definition py_or :: "val \<Rightarrow> val \<Rightarrow> val" where
  "py_or a b = (if truthy a then a else b)"

definition digit_chars :: string where
  "digit_chars = ''0123456789''"

text \<open>The decimal digits of a non-negative integer, and \<^verbatim>\<open>str\<close> of an integer.\<close>

function digits :: "int \<Rightarrow> string" where
  "digits n =
     (if n < 10 then [digit_chars ! nat n]
      else digits (n div 10) @ [digit_chars ! nat (n mod 10)])"
  by pat_completeness auto
termination
  by (relation "measure nat") auto

declare digits.simps [simp del]

definition str_of_int :: "int \<Rightarrow> string" where
  "str_of_int i = (if i < 0 then CHR ''-'' # digits (- i) else digits i)"

fun py_str :: "val \<Rightarrow> string" where
  "py_str VNone = ''None''"
| "py_str (VBool b) = (if b then ''True'' else ''False'')"
| "py_str (VInt n) = str_of_int n"
| "py_str (VStr s) = s"

text \<open>
  \<^verbatim>\<open>str.isspace\<close> on the code points below 256: the ASCII white space, the separators
  \<^verbatim>\<open>0x1C\<close> to \<^verbatim>\<open>0x1F\<close>, and \<^verbatim>\<open>0x85\<close> and \<^verbatim>\<open>0xA0\<close>.
\<close>

definition isspace :: "char \<Rightarrow> bool" where
  "isspace c = (c \<in> set [CHR 0x09, CHR 0x0A, CHR 0x0B, CHR 0x0C, CHR 0x0D,
                           CHR 0x1C, CHR 0x1D, CHR 0x1E, CHR 0x1F, CHR 0x20,
                           CHR 0x85, CHR 0xA0])"

definition strip :: "string \<Rightarrow> string" where
  "strip s = rev (dropWhile isspace (rev (dropWhile isspace s)))"

text \<open>
  \<^verbatim>\<open>str.lower\<close> on the code points below 256: the letters \<^verbatim>\<open>A\<close> to \<^verbatim>\<open>Z\<close> and the
  capital letters \<^verbatim>\<open>0xC0\<close> to \<^verbatim>\<open>0xDE\<close> (without the sign \<^verbatim>\<open>0xD7\<close>) move up by 32.
\<close>

definition upper_chars :: string where
  "upper_chars = ''ABCDEFGHIJKLMNOPQRSTUVWXYZ'' @
     [CHR 0xC0, CHR 0xC1, CHR 0xC2, CHR 0xC3, CHR 0xC4, CHR 0xC5, CHR 0xC6, CHR 0xC7,
      CHR 0xC8, CHR 0xC9, CHR 0xCA, CHR 0xCB, CHR 0xCC, CHR 0xCD, CHR 0xCE, CHR 0xCF,
      CHR 0xD0, CHR 0xD1, CHR 0xD2, CHR 0xD3, CHR 0xD4, CHR 0xD5, CHR 0xD6, CHR 0xD8,
      CHR 0xD9, CHR 0xDA, CHR 0xDB, CHR 0xDC, CHR 0xDD, CHR 0xDE]"

definition lower_chars :: string where
  "lower_chars = ''abcdefghijklmnopqrstuvwxyz'' @
     [CHR 0xE0, CHR 0xE1, CHR 0xE2, CHR 0xE3, CHR 0xE4, CHR 0xE5, CHR 0xE6, CHR 0xE7,
      CHR 0xE8, CHR 0xE9, CHR 0xEA, CHR 0xEB, CHR 0xEC, CHR 0xED, CHR 0xEE, CHR 0xEF,
      CHR 0xF0, CHR 0xF1, CHR 0xF2, CHR 0xF3, CHR 0xF4, CHR 0xF5, CHR 0xF6, CHR 0xF8,
      CHR 0xF9, CHR 0xFA, CHR 0xFB, CHR 0xFC, CHR 0xFD, CHR 0xFE]"

definition lower_char :: "char \<Rightarrow> char" where
  "lower_char c = (case map_of (zip upper_chars lower_chars) c of Some d \<Rightarrow> d | None \<Rightarrow> c)"

definition lower :: "string \<Rightarrow> string" where
  "lower s = map lower_char s"

text \<open>\<^verbatim>\<open>s.split()\<close>: the maximal runs of non-whitespace characters.\<close>

fun split_ws :: "string \<Rightarrow> string \<Rightarrow> string list" where
  "split_ws cur [] = (if cur = [] then [] else [cur])"
| "split_ws cur (c # cs) =
     (if isspace c then (if cur = [] then split_ws [] cs else cur # split_ws [] cs)
      else split_ws (cur @ [c]) cs)"

definition split :: "string \<Rightarrow> string list" where
  "split s = split_ws [] s"

fun join :: "string \<Rightarrow> string list \<Rightarrow> string" where
  "join sep [] = []"
| "join sep [x] = x"
| "join sep (x # y # ys) = x @ sep @ join sep (y # ys)"

definition sq :: string where "sq = [CHR 0x27]"
definition dq :: string where "dq = [CHR 0x22]"
definition bs :: string where "bs = [CHR 0x5C]"
definition nl :: string where "nl = [CHR 0x0A]"

section \<open>The administration commands of \<^verbatim>\<open>scripts/initial_setup.py\<close>\<close>

text \<open>
  One constructor for each command template of the script, in the order of the source;
  \<open>render\<close> gives the text that the script passes to \<^verbatim>\<open>psql_command\<close>.
\<close>

datatype sql =
    SelectDb string
  | SelectRole string
  | CreateRole string
  | AlterRolePassword string string string
  | CreateUser string string string
  | SelectExtraRoles string
  | DropDatabase string
  | DropRole string
  | CreateDatabase string string
  | SelectOwner string
  | AlterSetOwner string string
  | AlterGroupAddUser string string
  | AlterDatabaseJwt string string
  | AlterSchemaOwner string

fun render :: "sql \<Rightarrow> string" where
  "render (SelectDb test) =
     ''select datname from pg_catalog.pg_database where datname='' @ sq @ test @ sq"
| "render (SelectRole role) =
     ''select rolname from pg_catalog.pg_roles where rolname='' @ sq @ role @ sq"
| "render (CreateRole member) = ''CREATE ROLE '' @ member"
| "render (AlterRolePassword user extra_perms password) =
     ''ALTER ROLE '' @ user @ '' WITH LOGIN '' @ extra_perms @ '' ENCRYPTED PASSWORD ''
       @ sq @ password @ sq"
| "render (CreateUser user extra_perms password) =
     ''CREATE USER '' @ user @ '' WITH LOGIN '' @ extra_perms @ '' ENCRYPTED PASSWORD ''
       @ sq @ password @ sq"
| "render (SelectExtraRoles database) =
     ''select string_agg(rolname, '' @ sq @ '', '' @ sq
       @ '') from pg_catalog.pg_roles where rolname like '' @ sq @ database
       @ bs @ ''_'' @ bs @ ''__'' @ bs @ ''_%'' @ sq"
| "render (DropDatabase database) = ''DROP DATABASE '' @ database"
| "render (DropRole extra_roles) = ''DROP ROLE '' @ extra_roles"
| "render (CreateDatabase database owner) =
     ''CREATE DATABASE '' @ database @ '' WITH OWNER '' @ owner @ '' ENCODING UTF8''"
| "render (SelectOwner database) =
     ''SELECT pg_catalog.pg_get_userbyid(datdba) FROM pg_catalog.pg_database WHERE datname=''
       @ sq @ database @ sq"
| "render (AlterSetOwner database owner) =
     ''ALTER '' @ database @ '' SET OWNER TO '' @ owner"
| "render (AlterGroupAddUser grp client) = ''ALTER GROUP '' @ grp @ '' ADD USER '' @ client"
| "render (AlterDatabaseJwt database auth_secret) =
     ''ALTER DATABASE '' @ database @ '' SET '' @ dq @ ''app.jwt_secret'' @ dq @ '' TO ''
       @ sq @ auth_secret @ sq"
| "render (AlterSchemaOwner owner) = ''ALTER SCHEMA public OWNER TO '' @ owner"

section \<open>The environment and the trace of effects\<close>

text \<open>
  \<^verbatim>\<open>psql_command\<close> (imported from \<^verbatim>\<open>utils\<close>), \<^verbatim>\<open>token_urlsafe\<close>,
  \<^verbatim>\<open>input\<close>, \<^verbatim>\<open>getpass\<close>, \<^verbatim>\<open>getuser\<close> and \<^verbatim>\<open>sys.platform\<close> are
  parameters: operations on a world \<open>'w\<close> that the script cannot see. A raised exception
  is \<open>Inl\<close>. Every effect of the script is recorded, in order, with its outcome.
\<close>

record 'w os =
  sys_platform :: string
  getuser :: val
  psql_command :: "string \<Rightarrow> kwargs \<Rightarrow> 'w \<Rightarrow> (error + string) \<times> 'w"
  token_urlsafe :: "nat \<Rightarrow> 'w \<Rightarrow> string \<times> 'w"
  input_line :: "string \<Rightarrow> 'w \<Rightarrow> (error + string) \<times> 'w"
  getpass :: "string \<Rightarrow> 'w \<Rightarrow> (error + string) \<times> 'w"

datatype content = Text string | IniFile ini

datatype event =
    Psql sql kwargs "error + string"
  | Token nat string
  | Input string "error + string"
  | Getpass string "error + string"
  | WriteFile string content

type_synonym ('w, 'a) prog = "'w \<Rightarrow> (error + 'a) \<times> 'w \<times> event list"

definition ret :: "'a \<Rightarrow> ('w, 'a) prog" where
  "ret a = (\<lambda>w. (Inr a, w, []))"

definition raise :: "error \<Rightarrow> ('w, 'a) prog" where
  "raise e = (\<lambda>w. (Inl e, w, []))"

definition after :: "event list \<Rightarrow> (error + 'a) \<times> 'w \<times> event list \<Rightarrow> (error + 'a) \<times> 'w \<times> event list" where
  "after l r = (case r of (x, w, l') \<Rightarrow> (x, w, l @ l'))"

definition bnd :: "('w, 'a) prog \<Rightarrow> ('a \<Rightarrow> ('w, 'b) prog) \<Rightarrow> ('w, 'b) prog" where
  "bnd m f = (\<lambda>w. case m w of
                (Inl e, w', l) \<Rightarrow> (Inl e, w', l)
              | (Inr a, w', l) \<Rightarrow> after l (f a w'))"

text \<open>
  \<^verbatim>\<open>try: m; k  except AssertionError: pass; h\<close>: when \<open>m\<close> raises an assertion error
  the run goes on with \<open>h\<close>; any other exception propagates.
\<close>

definition try_assert ::
  "('w, 'a) prog \<Rightarrow> ('a \<Rightarrow> ('w, 'b) prog) \<Rightarrow> ('w, 'b) prog \<Rightarrow> ('w, 'b) prog" where
  "try_assert m k h = (\<lambda>w. case m w of
                         (Inr a, w', l) \<Rightarrow> after l (k a w')
                       | (Inl e, w', l) \<Rightarrow>
                           if e = AssertionError then after l (h w') else (Inl e, w', l))"

definition lift :: "error + 'a \<Rightarrow> ('w, 'a) prog" where
  "lift r = (\<lambda>w. (r, w, []))"

definition psql :: "'w os \<Rightarrow> sql \<Rightarrow> kwargs \<Rightarrow> ('w, string) prog" where
  "psql os c kw = (\<lambda>w. case psql_command os (render c) kw w of
                     (r, w') \<Rightarrow> (r, w', [Psql c kw r]))"

definition new_token :: "'w os \<Rightarrow> nat \<Rightarrow> ('w, string) prog" where
  "new_token os n = (\<lambda>w. case token_urlsafe os n w of (s, w') \<Rightarrow> (Inr s, w', [Token n s]))"

definition ask_input :: "'w os \<Rightarrow> string \<Rightarrow> ('w, string) prog" where
  "ask_input os p = (\<lambda>w. case input_line os p w of (r, w') \<Rightarrow> (r, w', [Input p r]))"

definition ask_getpass :: "'w os \<Rightarrow> string \<Rightarrow> ('w, string) prog" where
  "ask_getpass os p = (\<lambda>w. case getpass os p w of (r, w') \<Rightarrow> (r, w', [Getpass p r]))"

definition write_file :: "string \<Rightarrow> content \<Rightarrow> ('w, unit) prog" where
  "write_file name c = (\<lambda>w. (Inr (), w, [WriteFile name c]))"

section \<open>Existence probes\<close>

text \<open>
  Both probes take the name as their first parameter and pass every other keyword on to
  \<^verbatim>\<open>psql_command\<close>. A keyword with the name of that parameter (\<^verbatim>\<open>test\<close>, \<^verbatim>\<open>role\<close>)
  makes the call itself raise a \<^verbatim>\<open>TypeError\<close>, before any command is run.
\<close>

definition test_db_exists :: "'w os \<Rightarrow> string \<Rightarrow> kwargs \<Rightarrow> ('w, bool) prog" where
  "test_db_exists os test kw =
     (if map_of kw ''test'' \<noteq> None
      then raise (TypeError ''test_db_exists() got multiple values for argument test'')
      else bnd (psql os (SelectDb test) kw) (\<lambda>out. ret (strip out = test)))"

definition test_user_exists :: "'w os \<Rightarrow> string \<Rightarrow> kwargs \<Rightarrow> ('w, bool) prog" where
  "test_user_exists os role kw =
     (if map_of kw ''role'' \<noteq> None
      then raise (TypeError ''test_user_exists() got multiple values for argument role'')
      else bnd (psql os (SelectRole role) kw) (\<lambda>out. ret (strip out = role)))"

section \<open>Credential resolution: \<^verbatim>\<open>get_conn_params\<close>\<close>

definition kw_get :: "kwargs \<Rightarrow> string \<Rightarrow> val \<Rightarrow> val" where
  "kw_get kw k d = (case map_of kw k of Some v \<Rightarrow> v | None \<Rightarrow> d)"

definition rest_kwargs :: "kwargs \<Rightarrow> kwargs" where
  "rest_kwargs kw = filter (\<lambda>(k, v). k \<notin> set [''host'', ''user'', ''password'', ''sudo'']) kw"

definition prompt_role :: "val \<Rightarrow> string" where
  "prompt_role user =
     ''Could not log into postgres. Postgres role to use (leave blank to keep ''
       @ py_str user @ ''): ''"

definition conn_result :: "val \<Rightarrow> val \<Rightarrow> val \<Rightarrow> val \<Rightarrow> kwargs \<Rightarrow> kwargs" where
  "conn_result user host password sudo kw =
     [(''user'', user), (''host'', host), (''password'', password), (''sudo'', sudo)] @ kw"

text \<open>
  The \<^verbatim>\<open>while True\<close> loop of lines 58 to 72. It may run forever, so it is a partial
  function: \<open>None\<close> is a run that never returns. \<open>acc\<close> collects the effects so far.
\<close>

partial_function (option) retry_loop ::
  "'w os \<Rightarrow> val \<Rightarrow> val \<Rightarrow> val \<Rightarrow> kwargs \<Rightarrow> event list \<Rightarrow> 'w
     \<Rightarrow> ((error + kwargs) \<times> 'w \<times> event list) option" where
  "retry_loop os user host sudo kw acc w =
     (case ask_input os (prompt_role user) w of
        (Inl e, w1, l1) \<Rightarrow> Some (Inl e, w1, acc @ l1)
      | (Inr line, w1, l1) \<Rightarrow>
          (let user' = (if line \<noteq> [] then VStr line else user) in
           case ask_getpass os (''Password for role '' @ py_str user' @ '': '') w1 of
             (Inl e, w2, l2) \<Rightarrow> Some (Inl e, w2, acc @ l1 @ l2)
           | (Inr pw, w2, l2) \<Rightarrow>
               (case test_db_exists os ''postgres''
                       ([(''user'', user'), (''password'', VStr pw), (''host'', host)] @ kw) w2 of
                  (Inr b, w3, l3) \<Rightarrow>
                    Some (Inr (conn_result user' host (VStr pw) sudo kw), w3, acc @ l1 @ l2 @ l3)
                | (Inl e, w3, l3) \<Rightarrow>
                    if e = AssertionError
                    then retry_loop os user' host sudo kw (acc @ l1 @ l2 @ l3) w3
                    else Some (Inl e, w3, acc @ l1 @ l2 @ l3))))"

declare retry_loop.simps [code]

definition get_conn_params ::
  "'w os \<Rightarrow> kwargs \<Rightarrow> 'w \<Rightarrow> ((error + kwargs) \<times> 'w \<times> event list) option" where
  "get_conn_params os conn_data w =
     (let host = kw_get conn_data ''host'' (VStr ''localhost'');
          user0 = kw_get conn_data ''user'' VNone;
          password = kw_get conn_data ''password'' VNone;
          sudo0 = kw_get conn_data ''sudo'' VNone;
          kw = rest_kwargs conn_data;
          user = (if sys_platform os = ''darwin'' then py_or user0 (getuser os)
                  else py_or user0 (VStr ''postgres''));
          sudo = (if sys_platform os = ''darwin''
                  then (if sudo0 = VNone then VBool False else sudo0)
                  else (if sudo0 = VNone \<and> password = VNone then VBool True
                        else py_or sudo0 (VBool False)))
      in case test_db_exists os ''postgres'' (conn_result user host password sudo kw) w of
           (Inr b, w1, l1) \<Rightarrow> Some (Inr (conn_result user host password sudo kw), w1, l1)
         | (Inl e, w1, l1) \<Rightarrow>
             if e = AssertionError then retry_loop os user host sudo kw l1 w1
             else Some (Inl e, w1, l1))"

section \<open>Per-database provisioning: \<^verbatim>\<open>create_database\<close>\<close>

definition psql_unit :: "'w os \<Rightarrow> sql \<Rightarrow> kwargs \<Rightarrow> ('w, unit) prog" where
  "psql_unit os c kw = bnd (psql os c kw) (\<lambda>_. ret ())"

definition item :: "sdict \<Rightarrow> string \<Rightarrow> ('w, string) prog" where
  "item d k = (case map_of d k of Some v \<Rightarrow> ret v | None \<Rightarrow> raise (KeyError k))"

text \<open>Line 97: the privilege flag of the role.\<close>

definition extra_perms :: "string \<Rightarrow> string" where
  "extra_perms usert = (if usert = ''owner'' then ''CREATEROLE'' else ''NOINHERIT'')"

text \<open>Lines 98 to 107: alter the role when the administrator sees it, create it otherwise.\<close>

definition create_or_alter ::
  "'w os \<Rightarrow> kwargs \<Rightarrow> string \<Rightarrow> string \<Rightarrow> string \<Rightarrow> ('w, unit) prog" where
  "create_or_alter os conn_data usert user password =
     bnd (test_user_exists os user conn_data) (\<lambda>ex.
       if ex then psql_unit os (AlterRolePassword user (extra_perms usert) password) conn_data
       else psql_unit os (CreateUser user (extra_perms usert) password) conn_data)"

text \<open>Lines 85 and 86: the administrator's parameters with the role's own credentials.\<close>

definition user_conn :: "kwargs \<Rightarrow> string \<Rightarrow> string \<Rightarrow> kwargs" where
  "user_conn conn_data user password =
     AList.update ''password'' (VStr password) (AList.update ''user'' (VStr user) conn_data)"

text \<open>
  One iteration of the loop of lines 81 to 107. \<^verbatim>\<open>has_pass\<close> is truthy when the key is
  present with a non-empty value; \<^verbatim>\<open>continue\<close> returns \<open>data\<close> unchanged.
\<close>

definition setup_role :: "'w os \<Rightarrow> kwargs \<Rightarrow> string \<Rightarrow> sdict \<Rightarrow> ('w, sdict) prog" where
  "setup_role os conn_data usert data =
     bnd (item data usert) (\<lambda>user.
       let has_pass = (case map_of data (usert @ ''_password'') of
                         Some p \<Rightarrow> (if p \<noteq> [] then Some p else None) | None \<Rightarrow> None)
       in case has_pass of
            Some password \<Rightarrow>
              try_assert (test_user_exists os user (user_conn conn_data user password))
                (\<lambda>_. ret data)
                (bnd (create_or_alter os conn_data usert user password) (\<lambda>_. ret data))
          | None \<Rightarrow>
              bnd (new_token os 16) (\<lambda>password.
                bnd (create_or_alter os conn_data usert user password)
                  (\<lambda>_. ret (AList.update (usert @ ''_password'') password data))))"

fun setup_roles :: "'w os \<Rightarrow> kwargs \<Rightarrow> string list \<Rightarrow> sdict \<Rightarrow> ('w, sdict) prog" where
  "setup_roles os conn_data [] data = ret data"
| "setup_roles os conn_data (usert # rest) data =
     bnd (setup_role os conn_data usert data) (setup_roles os conn_data rest)"

text \<open>Lines 79 and 80: the member group.\<close>

definition ensure_member :: "'w os \<Rightarrow> kwargs \<Rightarrow> string \<Rightarrow> ('w, unit) prog" where
  "ensure_member os conn_data member =
     bnd (test_user_exists os member conn_data) (\<lambda>ex.
       if \<not> ex then psql_unit os (CreateRole member) conn_data else ret ())"

text \<open>Line 108: the stored signing secret when there is a non-empty one, a fresh one otherwise.\<close>

definition auth_secret_of :: "'w os \<Rightarrow> sdict \<Rightarrow> ('w, string) prog" where
  "auth_secret_of os data =
     (case map_of data ''auth_secret'' of
        Some s \<Rightarrow> (if s \<noteq> [] then ret s else new_token os 32)
      | None \<Rightarrow> new_token os 32)"

text \<open>Lines 111 to 133: the database itself.\<close>

definition ensure_database ::
  "'w os \<Rightarrow> kwargs \<Rightarrow> bool \<Rightarrow> string \<Rightarrow> string \<Rightarrow> ('w, unit) prog" where
  "ensure_database os conn_data dropdb database owner =
     bnd (test_db_exists os database conn_data) (\<lambda>db_exists0.
     bnd (if db_exists0 \<and> dropdb
          then bnd (psql os (SelectExtraRoles database) conn_data) (\<lambda>out.
               let extra_roles = strip out in
               bnd (psql_unit os (DropDatabase database) conn_data) (\<lambda>_.
               bnd (if extra_roles \<noteq> [] then psql_unit os (DropRole extra_roles) conn_data
                    else ret ()) (\<lambda>_. ret False)))
          else ret db_exists0) (\<lambda>db_exists.
     if \<not> db_exists then psql_unit os (CreateDatabase database owner) conn_data
     else bnd (psql os (SelectOwner database) conn_data) (\<lambda>out.
            if strip out \<noteq> owner then psql_unit os (AlterSetOwner database owner) conn_data
            else ret ())))"

text \<open>Lines 136 to 144: group membership, the signing secret and the schema owner.\<close>

definition grant_and_configure ::
  "'w os \<Rightarrow> kwargs \<Rightarrow> string \<Rightarrow> string \<Rightarrow> string \<Rightarrow> string \<Rightarrow> string \<Rightarrow> ('w, unit) prog" where
  "grant_and_configure os conn_data database member owner client auth_secret =
     bnd (psql_unit os (AlterGroupAddUser owner client) conn_data) (\<lambda>_.
     bnd (psql_unit os (AlterGroupAddUser member client) conn_data) (\<lambda>_.
     bnd (psql_unit os (AlterDatabaseJwt database auth_secret) conn_data) (\<lambda>_.
     psql_unit os (AlterSchemaOwner owner) (AList.update ''db'' (VStr database) conn_data))))"

definition create_database :: "'w os \<Rightarrow> sdict \<Rightarrow> kwargs \<Rightarrow> bool \<Rightarrow> ('w, sdict) prog" where
  "create_database os data0 conn_data dropdb =
     bnd (item data0 ''database'') (\<lambda>database.
     let member = database @ ''__member'' in
     bnd (ensure_member os conn_data member) (\<lambda>_.
     bnd (setup_roles os conn_data [''owner'', ''client''] data0) (\<lambda>data1.
     bnd (auth_secret_of os data1) (\<lambda>auth_secret.
     let data = AList.update ''auth_secret'' auth_secret data1 in
     bnd (item data ''owner'') (\<lambda>owner.
     bnd (ensure_database os conn_data dropdb database owner) (\<lambda>_.
     bnd (item data ''client'') (\<lambda>client.
     bnd (grant_and_configure os conn_data database member owner client auth_secret)
       (\<lambda>_. ret data))))))))"

section \<open>The state file: \<^verbatim>\<open>ConfigParser\<close>\<close>


definition has_section :: "ini \<Rightarrow> string \<Rightarrow> bool" where
  "has_section f s = (map_of f s \<noteq> None)"

definition add_section :: "string \<Rightarrow> ini \<Rightarrow> error + ini" where
  "add_section s f =
     (if has_section f s then Inl (OtherError ''DuplicateSectionError'') else Inr (f @ [(s, [])]))"

definition ini_items :: "ini \<Rightarrow> string \<Rightarrow> sdict" where
  "ini_items f s = (case map_of f s of Some sec \<Rightarrow> sec | None \<Rightarrow> [])"

text \<open>\<^verbatim>\<open>ini_file.get(section, option, fallback=None)\<close>\<close>

definition ini_get :: "ini \<Rightarrow> string \<Rightarrow> string \<Rightarrow> string option" where
  "ini_get f s k = (case map_of f s of Some sec \<Rightarrow> map_of sec k | None \<Rightarrow> None)"

text \<open>
  \<^verbatim>\<open>ini_file.set(section, option, value)\<close> first validates a non-empty value as
  \<^verbatim>\<open>BasicInterpolation.before_set\<close> does: once every \<^verbatim>\<open>%%\<close> and then every
  \<^verbatim>\<open>%(name)s\<close> is removed, a remaining \<^verbatim>\<open>%\<close> raises a \<^verbatim>\<open>ValueError\<close>.
\<close>

fun drop_escaped :: "string \<Rightarrow> string" where
  "drop_escaped (a # b # cs) =
     (if a = CHR ''%'' \<and> b = CHR ''%'' then drop_escaped cs else a # drop_escaped (b # cs))"
| "drop_escaped cs = cs"

text \<open>After a \<^verbatim>\<open>%\<close>: the text that follows a key \<^verbatim>\<open>(name)s\<close> with a non-empty name.\<close>

definition key_match :: "string \<Rightarrow> string option" where
  "key_match cs =
     (case cs of
        [] \<Rightarrow> None
      | c # rest \<Rightarrow>
          (let name = takeWhile (\<lambda>x. x \<noteq> CHR '')'') rest;
               tl = dropWhile (\<lambda>x. x \<noteq> CHR '')'') rest
           in if c = CHR ''('' \<and> name \<noteq> [] \<and> take 2 tl = '')s'' then Some (drop 2 tl)
              else None))"

function drop_keys :: "string \<Rightarrow> string" where
  "drop_keys [] = []"
| "drop_keys (c # cs) =
     (if c = CHR ''%''
      then (case key_match cs of Some r \<Rightarrow> drop_keys r | None \<Rightarrow> c # drop_keys cs)
      else c # drop_keys cs)"
  by pat_completeness auto
termination
  apply (relation "measure length")
  apply (auto simp: key_match_def Let_def split: list.splits if_splits)
  apply (metis length_dropWhile_le diff_le_self le_trans less_Suc_eq_le le_SucI)
  done

definition interpolation_ok :: "string \<Rightarrow> bool" where
  "interpolation_ok v = (CHR ''%'' \<notin> set (drop_keys (drop_escaped v)))"

definition ini_set :: "string \<Rightarrow> string \<Rightarrow> string \<Rightarrow> ini \<Rightarrow> error + ini" where
  "ini_set s k v f =
     (if \<not> interpolation_ok v then Inl (ValueError (''invalid interpolation syntax in '' @ v))
      else case map_of f s of
             Some sec \<Rightarrow> Inr (AList.update s (AList.update k v sec) f)
           | None \<Rightarrow> Inl (NoSectionError s))"

text \<open>\<^verbatim>\<open>ini_file.getboolean(section, option, fallback=None)\<close>\<close>

definition getboolean :: "ini \<Rightarrow> string \<Rightarrow> string \<Rightarrow> error + val" where
  "getboolean f s k =
     (case ini_get f s k of
        None \<Rightarrow> Inr VNone
      | Some v \<Rightarrow>
          if lower v \<in> set [''1'', ''yes'', ''true'', ''on''] then Inr (VBool True)
          else if lower v \<in> set [''0'', ''no'', ''false'', ''off''] then Inr (VBool False)
          else Inl (ValueError (''Not a boolean: '' @ v)))"

fun set_items :: "string \<Rightarrow> sdict \<Rightarrow> ini \<Rightarrow> error + ini" where
  "set_items s [] f = Inr f"
| "set_items s ((k, v) # kvs) f =
     (case ini_set s k v f of Inl e \<Rightarrow> Inl e | Inr f' \<Rightarrow> set_items s kvs f')"

section \<open>The command line\<close>

text \<open>
  \<open>cli\<close> is what the command line gives: \<open>None\<close> for an option that is absent. The
  \<^verbatim>\<open>--sudo\<close>/\<^verbatim>\<open>--no-sudo\<close> pair is \<open>Some True\<close>/\<open>Some False\<close>, and each
  \<^verbatim>\<open>--create-x\<close>/\<^verbatim>\<open>--no-create-x\<close> pair is the flag's final value (default true).
  \<open>args\<close> is the namespace that \<^verbatim>\<open>parse_args\<close> returns, the defaults filled in.
\<close>

record cli =
  cli_app_name :: "string option"
  cli_host :: "string option"
  cli_port :: "string option"
  cli_user :: "string option"
  cli_password :: "string option"
  cli_store_password :: bool
  cli_sudo :: "bool option"
  cli_development :: "string option"
  cli_production :: "string option"
  cli_test :: "string option"
  cli_create_development :: bool
  cli_create_production :: bool
  cli_create_test :: bool
  cli_dropdb :: bool
  cli_debug :: bool

record args =
  app_name :: string
  host :: val
  port :: val
  user :: val
  password :: val
  store_password :: bool
  sudo :: val
  development :: "string option"
  production :: "string option"
  test :: "string option"
  create_development :: bool
  create_production :: bool
  create_test :: bool
  dropdb :: bool
  debug :: bool

definition CONFIG_FILE :: string where "CONFIG_FILE = ''config.ini''"
definition DATABASES :: "string list" where "DATABASES = [''development'', ''test'', ''production'']"
definition DB_SUFFIXES :: "string list" where "DB_SUFFIXES = [''_dev'', ''_test'', []]"
definition POSTGREST_PORT :: int where "POSTGREST_PORT = 3000"

definition opt_val :: "string option \<Rightarrow> val \<Rightarrow> val" where
  "opt_val x d = (case x of Some s \<Rightarrow> VStr s | None \<Rightarrow> d)"

definition opt_or :: "string option \<Rightarrow> string option \<Rightarrow> string option" where
  "opt_or x d = (case x of Some s \<Rightarrow> Some s | None \<Rightarrow> d)"

definition parse_args :: "cli \<Rightarrow> string \<Rightarrow> kwargs \<Rightarrow> ini \<Rightarrow> args" where
  "parse_args c app_name_default conn_data ini_file =
     \<lparr> app_name = (case cli_app_name c of Some s \<Rightarrow> s | None \<Rightarrow> app_name_default),
       host = opt_val (cli_host c) (kw_get conn_data ''host'' VNone),
       port = opt_val (cli_port c) (kw_get conn_data ''port'' VNone),
       user = opt_val (cli_user c) (kw_get conn_data ''user'' VNone),
       password = opt_val (cli_password c) VNone,
       store_password = cli_store_password c,
       sudo = (case cli_sudo c of Some b \<Rightarrow> VBool b | None \<Rightarrow> kw_get conn_data ''sudo'' VNone),
       development = opt_or (cli_development c) (ini_get ini_file ''development'' ''database''),
       production = opt_or (cli_production c) (ini_get ini_file ''production'' ''database''),
       test = opt_or (cli_test c) (ini_get ini_file ''test'' ''database''),
       create_development = cli_create_development c,
       create_production = cli_create_production c,
       create_test = cli_create_test c,
       dropdb = cli_dropdb c,
       debug = cli_debug c \<rparr>"

text \<open>\<^verbatim>\<open>getattr(args, "create_" + db)\<close> and \<^verbatim>\<open>getattr(args, db)\<close> for the three names.\<close>

definition arg_create :: "args \<Rightarrow> string \<Rightarrow> bool" where
  "arg_create a db =
     (if db = ''development'' then create_development a
      else if db = ''test'' then create_test a
      else create_production a)"

definition arg_db :: "args \<Rightarrow> string \<Rightarrow> string option" where
  "arg_db a db =
     (if db = ''development'' then development a
      else if db = ''test'' then test a
      else production a)"

section \<open>The script: lines 157 to 306\<close>

definition bindE :: "error + 'a \<Rightarrow> ('a \<Rightarrow> error + 'b) \<Rightarrow> error + 'b" where
  "bindE r f = (case r of Inl e \<Rightarrow> Inl e | Inr a \<Rightarrow> f a)"

text \<open>
  Lines 158 to 261, which touch neither the database nor the terminal: the defaults from
  the state file, the command line, and the check of the application name.
  \<open>ini0\<close> is the parsed \<^verbatim>\<open>config.ini\<close>, empty when the file does not exist.
\<close>

definition startup :: "ini \<Rightarrow> cli \<Rightarrow> error + (ini \<times> kwargs \<times> args)" where
  "startup ini0 c =
     (let conn_data0 = [(''host'', VStr ''localhost''), (''port'', VInt 5432)] in
      bindE (if has_section ini0 ''postgres''
             then bindE (getboolean ini0 ''postgres'' ''sudo'') (\<lambda>b.
                    Inr (ini0, AList.update ''sudo'' b
                                 (fold (\<lambda>(k, v). AList.update k (VStr v))
                                    (ini_items ini0 ''postgres'') conn_data0)))
             else bindE (add_section ''postgres'' ini0) (\<lambda>f. Inr (f, conn_data0)))
        (\<lambda>(ini1, conn_data).
      bindE (if has_section ini1 ''base''
             then Inr (ini1, (case ini_get ini1 ''base'' ''app_name'' of
                                Some s \<Rightarrow> s | None \<Rightarrow> ''MISSING''))
             else bindE (add_section ''base'' ini1) (\<lambda>f. Inr (f, ''MISSING'')))
        (\<lambda>(ini_file, app_name_default).
      let a = parse_args c app_name_default conn_data ini_file in
      if app_name a = ''MISSING'' then Inl (RuntimeError ''You must specify an app_name'')
      else Inr (ini_file, conn_data, a))))"

definition postgrest_config :: "string \<Rightarrow> int \<Rightarrow> string \<Rightarrow> string \<Rightarrow> string" where
  "postgrest_config url prt client jwt =
     ''db-uri = '' @ dq @ url @ dq @ nl
     @ ''db-schema = '' @ dq @ ''public'' @ dq @ nl
     @ ''db-anon-role = '' @ dq @ client @ dq @ nl
     @ ''jwt-secret = '' @ dq @ jwt @ dq @ nl
     @ ''server-port = '' @ str_of_int prt @ nl
     @ ''server-host = '' @ dq @ ''*'' @ dq @ nl"

definition db_url :: "string \<Rightarrow> string \<Rightarrow> val \<Rightarrow> val \<Rightarrow> string \<Rightarrow> string" where
  "db_url client client_password h p dbname =
     ''postgres://'' @ client @ '':'' @ client_password @ ''@'' @ py_str h @ '':'' @ py_str p
       @ ''/'' @ dbname"

definition kw_item :: "kwargs \<Rightarrow> string \<Rightarrow> ('w, val) prog" where
  "kw_item d k = (case map_of d k of Some v \<Rightarrow> ret v | None \<Rightarrow> raise (KeyError k))"

definition as_str :: "val \<Rightarrow> error + string" where
  "as_str v = (case v of VStr s \<Rightarrow> Inr s | _ \<Rightarrow> Inl (TypeError ''option values must be strings''))"

text \<open>The body of the loop of lines 281 to 303 for one environment.\<close>

definition provision_env ::
  "'w os \<Rightarrow> args \<Rightarrow> kwargs \<Rightarrow> string \<Rightarrow> nat \<Rightarrow> string \<Rightarrow> ini \<Rightarrow> ('w, ini) prog" where
  "provision_env os a conn_data base_app_name index db ini_file =
     (if arg_create a db then
        (let dbname = (case arg_db a db of
                         Some s \<Rightarrow> (if s \<noteq> [] then s else base_app_name @ DB_SUFFIXES ! index)
                       | None \<Rightarrow> base_app_name @ DB_SUFFIXES ! index);
             data0 = [(''database'', dbname), (''owner'', dbname @ ''__owner''),
                      (''client'', dbname @ ''__client'')]
         in bnd (if has_section ini_file db
                 then ret (fold (\<lambda>(k, v). AList.update k v) (ini_items ini_file db) data0, ini_file)
                 else bnd (lift (add_section db ini_file)) (\<lambda>f. ret (data0, f)))
              (\<lambda>(data1, ini1).
            bnd (create_database os data1 conn_data (dropdb a)) (\<lambda>data.
            bnd (lift (set_items db data ini1)) (\<lambda>ini2.
            bnd (item data ''client'') (\<lambda>client.
            bnd (item data ''client_password'') (\<lambda>client_password.
            bnd (kw_item conn_data ''host'') (\<lambda>h.
            bnd (kw_item conn_data ''port'') (\<lambda>p.
            bnd (item data ''auth_secret'') (\<lambda>jwt.
            bnd (write_file (''postgrest_'' @ db @ ''.conf'')
                   (Text (postgrest_config (db_url client client_password h p dbname)
                            (POSTGREST_PORT + int index) client jwt)))
              (\<lambda>_. ret ini2))))))))))
      else ret ini_file)"

fun provision_all ::
  "'w os \<Rightarrow> args \<Rightarrow> kwargs \<Rightarrow> string \<Rightarrow> nat \<Rightarrow> string list \<Rightarrow> ini \<Rightarrow> ('w, ini) prog" where
  "provision_all os a conn_data base_app_name index [] ini_file = ret ini_file"
| "provision_all os a conn_data base_app_name index (db # dbs) ini_file =
     bnd (provision_env os a conn_data base_app_name index db ini_file)
       (provision_all os a conn_data base_app_name (Suc index) dbs)"

text \<open>Lines 269 to 306: what follows credential resolution.\<close>

definition persist_and_provision :: "'w os \<Rightarrow> args \<Rightarrow> ini \<Rightarrow> kwargs \<Rightarrow> ('w, unit) prog" where
  "persist_and_provision os a ini_file conn_data0 =
     (let conn_data = AList.update ''debug'' (VBool (debug a)) conn_data0 in
      bnd (kw_item conn_data ''host'') (\<lambda>h.
      bnd (lift (bindE (as_str h) (\<lambda>s. ini_set ''postgres'' ''host'' s ini_file))) (\<lambda>ini1.
      bnd (kw_item conn_data ''port'') (\<lambda>p.
      bnd (lift (ini_set ''postgres'' ''port'' (py_str p) ini1)) (\<lambda>ini2.
      bnd (kw_item conn_data ''user'') (\<lambda>u.
      bnd (lift (bindE (as_str u) (\<lambda>s. ini_set ''postgres'' ''user'' s ini2))) (\<lambda>ini3.
      bnd (kw_item conn_data ''sudo'') (\<lambda>sd.
      bnd (lift (ini_set ''postgres'' ''sudo'' (lower (py_str sd)) ini3)) (\<lambda>ini4.
      bnd (if store_password a
           then bnd (kw_item conn_data ''password'') (\<lambda>pw.
                  lift (ini_set ''postgres'' ''password'' (py_str pw) ini4))
           else lift (ini_set ''postgres'' ''needs_password''
                        (lower (py_str (VBool (truthy (password a))))) ini4)) (\<lambda>ini5.
      bnd (lift (ini_set ''base'' ''app_name'' (app_name a) ini5)) (\<lambda>ini6.
      bnd (provision_all os a conn_data (join ''_'' (split (lower (app_name a)))) 0 DATABASES ini6)
        (\<lambda>ini7.
      write_file CONFIG_FILE (IniFile ini7)))))))))))))"

definition main :: "'w os \<Rightarrow> ini \<Rightarrow> cli \<Rightarrow> 'w \<Rightarrow> ((error + unit) \<times> 'w \<times> event list) option" where
  "main os ini0 c w =
     (case startup ini0 c of
        Inl e \<Rightarrow> Some (Inl e, w, [])
      | Inr (ini_file, conn_data0, a) \<Rightarrow>
          (let conn_data1 = AList.update ''port'' (port a) (AList.update ''host'' (host a) conn_data0);
               conn_data2 = (if truthy (user a) then AList.update ''user'' (user a) conn_data1
                             else conn_data1);
               conn_data3 = AList.update ''sudo'' (sudo a)
                              (AList.update ''password'' (password a) conn_data2)
           in case get_conn_params os conn_data3 w of
                None \<Rightarrow> None
              | Some (Inl e, w1, l1) \<Rightarrow> Some (Inl e, w1, l1)
              | Some (Inr conn_data, w1, l1) \<Rightarrow>
                  Some (after l1 (persist_and_provision os a ini_file conn_data w1))))"

section \<open>\<^verbatim>\<open>hyperknowledge/eventdb/__init__.py\<close>: \<^verbatim>\<open>as_tuple\<close>\<close>

text \<open>A Python value is a tuple, a list, or anything else (\<open>Atom\<close>).\<close>

datatype 'a py = PTuple "'a py list" | PList "'a py list" | Atom 'a

fun as_tuple :: "'a py \<Rightarrow> 'a py" where
  "as_tuple (PTuple xs) = PTuple xs"
| "as_tuple (PList xs) = PTuple xs"
| "as_tuple v = PTuple [v]"

fun as_tuple_or_scalar :: "'a py \<Rightarrow> 'a py" where
  "as_tuple_or_scalar (PTuple xs) = PTuple xs"
| "as_tuple_or_scalar (PList xs) = PTuple xs"
| "as_tuple_or_scalar v = v"

fun is_tuple :: "'a py \<Rightarrow> bool" where
  "is_tuple (PTuple xs) = True"
| "is_tuple v = False"

fun is_list :: "'a py \<Rightarrow> bool" where
  "is_list (PList xs) = True"
| "is_list v = False"

fun elems :: "'a py \<Rightarrow> 'a py list" where
  "elems (PTuple xs) = xs"
| "elems (PList xs) = xs"
| "elems v = []"

section \<open>Notions used in the statements\<close>







text \<open>
  \<open>sat m Q\<close>: from every world, the outcome and the trace of \<open>m\<close> satisfy \<open>Q\<close>.
  \<open>emits P m\<close>: every effect of \<open>m\<close> satisfies \<open>P\<close>.
\<close>

definition sat :: "('w, 'a) prog \<Rightarrow> (error + 'a \<Rightarrow> event list \<Rightarrow> bool) \<Rightarrow> bool" where
  "sat m Q = (\<forall>w. Q (fst (m w)) (snd (snd (m w))))"

definition emits :: "(event \<Rightarrow> bool) \<Rightarrow> ('w, 'a) prog \<Rightarrow> bool" where
  "emits P m = sat m (\<lambda>r l. list_all P l)"

text \<open>\<open>fails_by_command m\<close>: when \<open>m\<close> raises, its last effect is the command that raised.\<close>

definition command_failed :: "error \<Rightarrow> event list \<Rightarrow> bool" where
  "command_failed e l = (case rev l of Psql c kw r # _ \<Rightarrow> r = Inl e | _ \<Rightarrow> False)"

definition fails_by_command :: "('w, 'a) prog \<Rightarrow> bool" where
  "fails_by_command m = sat m (\<lambda>r l. case r of Inl e \<Rightarrow> command_failed e l | Inr a \<Rightarrow> True)"


fun is_token :: "event \<Rightarrow> bool" where
  "is_token (Token n s) = True"
| "is_token e = False"

text \<open>The role passwords are the tokens of 16 bytes (line 84); the signing secret has 32.\<close>

fun is_password_token :: "event \<Rightarrow> bool" where
  "is_password_token (Token n s) = (n = 16)"
| "is_password_token e = False"


definition returns :: "('a \<Rightarrow> bool) \<Rightarrow> ('w, 'a) prog \<Rightarrow> bool" where
  "returns R m = sat m (\<lambda>r l. case r of Inl e \<Rightarrow> True | Inr a \<Rightarrow> R a)"

text \<open>
  The commands that create, drop or change a role or a database, as opposed to the probes
  and to the grants and settings of lines 136 to 144. An effect \<open>keeps_existing\<close> when it
  is neither such a command nor the generation of a password.
\<close>

fun creates_or_changes :: "sql \<Rightarrow> bool" where
  "creates_or_changes (CreateRole m) = True"
| "creates_or_changes (AlterRolePassword u x p) = True"
| "creates_or_changes (CreateUser u x p) = True"
| "creates_or_changes (DropDatabase d) = True"
| "creates_or_changes (DropRole rs) = True"
| "creates_or_changes (CreateDatabase d ow) = True"
| "creates_or_changes (AlterSetOwner d ow) = True"
| "creates_or_changes c = False"


text \<open>The effects of a trace on the role \<open>u\<close>: its probes and the commands that set its password.\<close>

fun about_role :: "sql \<Rightarrow> bool" where
  "about_role (SelectRole x) = True"
| "about_role (AlterRolePassword x perms p) = True"
| "about_role (CreateUser x perms p) = True"
| "about_role c = False"

fun names :: "string \<Rightarrow> event \<Rightarrow> bool" where
  "names u (Psql (SelectRole x) kw r) = (x = u)"
| "names u (Psql (AlterRolePassword x perms p) kw r) = (x = u)"
| "names u (Psql (CreateUser x perms p) kw r) = (x = u)"
| "names u e = False"

definition role_events :: "string \<Rightarrow> event list \<Rightarrow> event list" where
  "role_events u tr = filter (names u) tr"

text \<open>Whether the data supply a password for a role (\<^verbatim>\<open>has_pass\<close>, line 83).\<close>

definition has_pass :: "sdict \<Rightarrow> string \<Rightarrow> bool" where
  "has_pass data usert =
     (case map_of data (usert @ ''_password'') of Some p \<Rightarrow> p \<noteq> [] | None \<Rightarrow> False)"


section \<open>Concrete environments\<close>

text \<open>
  A database server that accepts every command and answers every query with nothing; the
  world is a counter from which the tokens are numbered.
\<close>

definition steady_os :: "nat os" where
  "steady_os = \<lparr> sys_platform = ''linux'', getuser = VStr ''me'',
      psql_command = (\<lambda>cmd kw w. (Inr [], w)),
      token_urlsafe = (\<lambda>n w. (''tok'' @ str_of_int (int w), Suc w)),
      input_line = (\<lambda>p w. (Inr [], w)),
      getpass = (\<lambda>p w. (Inr [], w)) \<rparr>"

text \<open>A server on which the role \<^verbatim>\<open>app__owner\<close> cannot log in.\<close>

definition rejecting_os :: "nat os" where
  "rejecting_os = steady_os \<lparr> psql_command :=
      (\<lambda>cmd kw w. if map_of kw ''user'' = Some (VStr ''app__owner'')
                   then (Inl AssertionError, w) else (Inr [], w)) \<rparr>"


definition stored_data :: sdict where
  "stored_data = [(''database'', ''app''), (''owner'', ''app__owner''),
                  (''client'', ''app__client''), (''owner_password'', ''po''),
                  (''client_password'', ''pc''), (''auth_secret'', ''s'')]"

text \<open>
  A server on which the database \<^verbatim>\<open>app\<close> exists and belongs to the role
  \<^verbatim>\<open>postgres\<close>.
\<close>

definition foreign_owner_os :: "nat os" where
  "foreign_owner_os = steady_os \<lparr> psql_command :=
      (\<lambda>cmd kw w. if cmd = render (SelectDb ''app'') then (Inr ''app'', w)
                   else if cmd = render (SelectOwner ''app'') then (Inr ''postgres'', w)
                   else (Inr [], w)) \<rparr>"

text \<open>
  A host on which \<^verbatim>\<open>psql_command\<close> fails whenever it is asked to use sudo, and an
  operator who answers the prompts with the role \<^verbatim>\<open>admin\<close> and an empty password.
\<close>

definition sudo_denied_os :: "nat os" where
  "sudo_denied_os = \<lparr> sys_platform = ''linux'', getuser = VStr ''me'',
      psql_command = (\<lambda>cmd kw w. if map_of kw ''sudo'' = Some (VBool True)
                                  then (Inl AssertionError, w) else (Inr [], w)),
      token_urlsafe = (\<lambda>n w. (''tok'' @ str_of_int (int w), Suc w)),
      input_line = (\<lambda>p w. (Inr ''admin'', w)),
      getpass = (\<lambda>p w. (Inr [], w)) \<rparr>"

text \<open>The texts of the commands of a trace, in order.\<close>

fun commands :: "event list \<Rightarrow> string list" where
  "commands [] = []"
| "commands (Psql c kw r # es) = render c # commands es"
| "commands (e # es) = commands es"

text \<open>The keyword arguments of the last command of a trace that returned.\<close>

fun last_success :: "event list \<Rightarrow> kwargs option" where
  "last_success [] = None"
| "last_success (Psql c kw (Inr out) # es) =
     (case last_success es of Some kw' \<Rightarrow> Some kw' | None \<Rightarrow> Some kw)"
| "last_success (e # es) = last_success es"

text \<open>The command line with no option given, and with an application name.\<close>

definition default_cli :: cli where
  "default_cli = \<lparr> cli_app_name = None, cli_host = None, cli_port = None, cli_user = None,
     cli_password = None, cli_store_password = False, cli_sudo = None, cli_development = None,
     cli_production = None, cli_test = None, cli_create_development = True,
     cli_create_production = True, cli_create_test = True, cli_dropdb = False,
     cli_debug = False \<rparr>"


text \<open>
  Whether the command line asks for an environment, and the database name it gives for
  it (the \<^verbatim>\<open>--create-x\<close> and \<^verbatim>\<open>--x\<close> options).
\<close>

definition cli_creates :: "cli \<Rightarrow> string \<Rightarrow> bool" where
  "cli_creates c db =
     (if db = ''development'' then cli_create_development c
      else if db = ''test'' then cli_create_test c
      else cli_create_production c)"

definition cli_database :: "cli \<Rightarrow> string \<Rightarrow> string option" where
  "cli_database c db =
     (if db = ''development'' then cli_development c
      else if db = ''test'' then cli_test c
      else cli_production c)"

text \<open>The state file that a trace ends by writing.\<close>

definition written_ini :: "event list \<Rightarrow> ini" where
  "written_ini tr = (case rev tr of WriteFile n (IniFile f) # es \<Rightarrow> f | _ \<Rightarrow> [])"

text \<open>The trace of a run of the script.\<close>

definition trace_of :: "((error + unit) \<times> 'w \<times> event list) option \<Rightarrow> event list" where
  "trace_of x = (case x of Some (r, w, tr) \<Rightarrow> tr | None \<Rightarrow> [])"

text \<open>
  The state file left by a run for the application \<^verbatim>\<open>a\<close>, and a later command line
  that names the application \<^verbatim>\<open>b\<close> and asks for the development environment only.
\<close>

definition earlier_ini :: ini where
  "earlier_ini = [(''postgres'', [(''host'', ''localhost''), (''port'', ''5432''),
                     (''user'', ''postgres''), (''sudo'', ''true''), (''needs_password'', ''false'')]),
                  (''base'', [(''app_name'', ''a'')]),
                  (''development'', [(''database'', ''a_dev''), (''owner'', ''a_dev__owner''),
                     (''client'', ''a_dev__client''), (''owner_password'', ''po''),
                     (''client_password'', ''pc''), (''auth_secret'', ''s'')])]"

definition renamed_cli :: cli where
  "renamed_cli = default_cli \<lparr> cli_app_name := Some ''b'', cli_create_production := False,
                               cli_create_test := False \<rparr>"


section \<open>Properties of \<^verbatim>\<open>as_tuple\<close>\<close>

text \<open>
  Claim C8. For every value \<open>v\<close>, \<open>as_tuple v\<close> is a tuple: the tuple of the elements
  of \<open>v\<close> when \<open>v\<close> is a list or a tuple, and the one-element tuple of \<open>v\<close> otherwise.
  Both \<open>as_tuple\<close> and \<open>as_tuple_or_scalar\<close> are idempotent, and
  \<open>as_tuple_or_scalar\<close> returns a value that is neither a list nor a tuple unchanged.
\<close>

theorem as_tuple_spec:
  "is_tuple (as_tuple v)
   \<and> as_tuple v = (if is_tuple v \<or> is_list v then PTuple (elems v) else PTuple [v])
   \<and> as_tuple (as_tuple v) = as_tuple v
   \<and> as_tuple_or_scalar (as_tuple_or_scalar v) = as_tuple_or_scalar v
   \<and> as_tuple_or_scalar v = (if is_tuple v \<or> is_list v then PTuple (elems v) else v)"
  by (cases v) simp_all

section \<open>The calculus of outcomes and traces\<close>

lemma satD: "sat m Q \<Longrightarrow> m w = (r, w', tr) \<Longrightarrow> Q r tr"
  by (auto simp: sat_def dest: spec[of _ w])

lemma sat_ret: "Q (Inr a) [] \<Longrightarrow> sat (ret a) Q"
  by (simp add: sat_def ret_def)

lemma sat_raise: "Q (Inl e) [] \<Longrightarrow> sat (raise e) Q"
  by (simp add: sat_def raise_def)

lemma sat_lift: "Q r [] \<Longrightarrow> sat (lift r) Q"
  by (simp add: sat_def lift_def)

lemma sat_write_file: "Q (Inr ()) [WriteFile n c] \<Longrightarrow> sat (write_file n c) Q"
  by (simp add: sat_def write_file_def)

lemma sat_bnd:
  assumes "sat m (\<lambda>r l. case r of Inl e \<Rightarrow> Q (Inl e) l
                         | Inr a \<Rightarrow> sat (f a) (\<lambda>r' l'. Q r' (l @ l')))"
  shows "sat (bnd m f) Q"
  unfolding sat_def
proof
  fix w
  obtain r w1 l where m: "m w = (r, w1, l)" by (cases "m w")
  note c = satD[OF assms m]
  show "Q (fst (bnd m f w)) (snd (snd (bnd m f w)))"
  proof (cases r)
    case (Inl e)
    with m c show ?thesis by (simp add: bnd_def)
  next
    case (Inr a)
    with c have "sat (f a) (\<lambda>r' l'. Q r' (l @ l'))" by simp
    then have "Q (fst (f a w1)) (l @ snd (snd (f a w1)))" by (simp add: sat_def)
    with m Inr show ?thesis by (auto simp: bnd_def after_def split: prod.splits)
  qed
qed

lemma sat_try_assert:
  assumes "sat m (\<lambda>r l. case r of
                    Inl e \<Rightarrow> if e = AssertionError then sat h (\<lambda>r' l'. Q r' (l @ l'))
                             else Q (Inl e) l
                  | Inr a \<Rightarrow> sat (k a) (\<lambda>r' l'. Q r' (l @ l')))"
  shows "sat (try_assert m k h) Q"
  unfolding sat_def
proof
  fix w
  obtain r w1 l where m: "m w = (r, w1, l)" by (cases "m w")
  note c = satD[OF assms m]
  show "Q (fst (try_assert m k h w)) (snd (snd (try_assert m k h w)))"
  proof (cases r)
    case (Inl e)
    show ?thesis
    proof (cases "e = AssertionError")
      case True
      with c Inl have "sat h (\<lambda>r' l'. Q r' (l @ l'))" by simp
      then have "Q (fst (h w1)) (l @ snd (snd (h w1)))" by (simp add: sat_def)
      with m Inl True show ?thesis by (auto simp: try_assert_def after_def split: prod.splits)
    next
      case False
      with c Inl m show ?thesis by (simp add: try_assert_def)
    qed
  next
    case (Inr a)
    with c have "sat (k a) (\<lambda>r' l'. Q r' (l @ l'))" by simp
    then have "Q (fst (k a w1)) (l @ snd (snd (k a w1)))" by (simp add: sat_def)
    with m Inr show ?thesis by (auto simp: try_assert_def after_def split: prod.splits)
  qed
qed



lemma sat_psql: "(\<And>r. Q r [Psql c kw r]) \<Longrightarrow> sat (psql os c kw) Q"
  by (simp add: sat_def psql_def split: prod.splits)

lemma sat_new_token: "(\<And>s. Q (Inr s) [Token n s]) \<Longrightarrow> sat (new_token os n) Q"
  by (simp add: sat_def new_token_def split: prod.splits)

lemma sat_item:
  "(\<And>v. map_of d k = Some v \<Longrightarrow> Q (Inr v) []) \<Longrightarrow> (map_of d k = None \<Longrightarrow> Q (Inl (KeyError k)) [])
   \<Longrightarrow> sat (item d k) Q"
  by (cases "map_of d k") (simp_all add: item_def sat_ret sat_raise)

lemma sat_kw_item:
  "(\<And>v. map_of d k = Some v \<Longrightarrow> Q (Inr v) []) \<Longrightarrow> (map_of d k = None \<Longrightarrow> Q (Inl (KeyError k)) [])
   \<Longrightarrow> sat (kw_item d k) Q"
  by (cases "map_of d k") (simp_all add: kw_item_def sat_ret sat_raise)

lemma sat_conj: "sat m P \<Longrightarrow> sat m Q \<Longrightarrow> sat m (\<lambda>r l. P r l \<and> Q r l)"
  by (simp add: sat_def)

lemma sat_psql_unit:
  "(\<And>e. Q (Inl e) [Psql c kw (Inl e)]) \<Longrightarrow> (\<And>s. Q (Inr ()) [Psql c kw (Inr s)])
   \<Longrightarrow> sat (psql_unit os c kw) Q"
  unfolding psql_unit_def
  by (rule sat_bnd, rule sat_psql) (simp add: sat_ret split: sum.split)

lemma sat_test_user_exists:
  assumes "\<And>e. map_of kw ''role'' \<noteq> None \<Longrightarrow> Q (Inl e) []"
    and "\<And>e. Q (Inl e) [Psql (SelectRole u) kw (Inl e)]"
    and "\<And>s. Q (Inr (strip s = u)) [Psql (SelectRole u) kw (Inr s)]"
  shows "sat (test_user_exists os u kw) Q"
proof (cases "map_of kw ''role''")
  case None
  show ?thesis
    unfolding test_user_exists_def using None assms(2,3)
    by (simp, intro sat_bnd sat_psql) (simp add: sat_ret split: sum.split)
next
  case (Some v)
  then show ?thesis
    unfolding test_user_exists_def using assms(1) by (simp add: sat_raise)
qed

lemma sat_test_db_exists:
  assumes "\<And>e. map_of kw ''test'' \<noteq> None \<Longrightarrow> Q (Inl e) []"
    and "\<And>e. Q (Inl e) [Psql (SelectDb u) kw (Inl e)]"
    and "\<And>s. Q (Inr (strip s = u)) [Psql (SelectDb u) kw (Inr s)]"
  shows "sat (test_db_exists os u kw) Q"
proof (cases "map_of kw ''test''")
  case None
  show ?thesis
    unfolding test_db_exists_def using None assms(2,3)
    by (simp, intro sat_bnd sat_psql) (simp add: sat_ret split: sum.split)
next
  case (Some v)
  then show ?thesis
    unfolding test_db_exists_def using assms(1) by (simp add: sat_raise)
qed

text \<open>A run of a sequence that returns is a run of each part.\<close>

lemma bnd_Inr:
  assumes "bnd m f w = (Inr b, w', tr)"
  obtains a w1 l1 l2 where "m w = (Inr a, w1, l1)" "f a w1 = (Inr b, w', l2)" "tr = l1 @ l2"
  using assms
  by (auto simp: bnd_def after_def split: prod.splits sum.splits)

lemma ret_Inr: "ret a w = (r, w', tr) \<longleftrightarrow> r = Inr a \<and> w' = w \<and> tr = []"
  by (auto simp: ret_def)

lemma lift_run: "lift x w = (r, w', tr) \<longleftrightarrow> r = x \<and> w' = w \<and> tr = []"
  by (auto simp: lift_def)

lemma item_Inr: "item d k w = (Inr v, w', tr) \<longleftrightarrow> map_of d k = Some v \<and> w' = w \<and> tr = []"
  by (cases "map_of d k") (auto simp: item_def ret_def raise_def)

lemma kw_item_Inr: "kw_item d k w = (Inr v, w', tr) \<longleftrightarrow> map_of d k = Some v \<and> w' = w \<and> tr = []"
  by (cases "map_of d k") (auto simp: kw_item_def ret_def raise_def)

lemma write_file_run:
  "write_file n c w = (r, w', tr) \<longleftrightarrow> r = Inr () \<and> w' = w \<and> tr = [WriteFile n c]"
  by (auto simp: write_file_def)

subsection \<open>Properties of every effect\<close>

lemma emits_bnd: "emits P m \<Longrightarrow> (\<And>a. emits P (f a)) \<Longrightarrow> emits P (bnd m f)"
  unfolding emits_def
  by (rule sat_bnd) (auto simp: sat_def split: sum.split)

lemma emits_try_assert:
  "emits P m \<Longrightarrow> (\<And>a. emits P (k a)) \<Longrightarrow> emits P h \<Longrightarrow> emits P (try_assert m k h)"
  unfolding emits_def
  by (rule sat_try_assert) (auto simp: sat_def split: sum.split)

lemma emits_ret: "emits P (ret a)" by (simp add: emits_def sat_ret)
lemma emits_raise: "emits P (raise a)" by (simp add: emits_def sat_raise)
lemma emits_lift: "emits P (lift a)" by (simp add: emits_def sat_lift)
lemma emits_item: "emits P (item d k)" by (simp add: emits_def sat_item)
lemma emits_kw_item: "emits P (kw_item d k)" by (simp add: emits_def sat_kw_item)

lemma emits_psql: "(\<And>r. P (Psql c kw r)) \<Longrightarrow> emits P (psql os c kw)"
  by (simp add: emits_def sat_psql)

lemma emits_psql_unit: "(\<And>r. P (Psql c kw r)) \<Longrightarrow> emits P (psql_unit os c kw)"
  by (simp add: emits_def sat_psql_unit)

lemma emits_test_user_exists:
  "(\<And>r. P (Psql (SelectRole u) kw r)) \<Longrightarrow> emits P (test_user_exists os u kw)"
  by (simp add: emits_def sat_test_user_exists)

lemma emits_test_db_exists:
  "(\<And>r. P (Psql (SelectDb u) kw r)) \<Longrightarrow> emits P (test_db_exists os u kw)"
  by (simp add: emits_def sat_test_db_exists)

lemma emits_new_token: "(\<And>s. P (Token n s)) \<Longrightarrow> emits P (new_token os n)"
  by (simp add: emits_def sat_new_token)

lemma emits_write_file: "P (WriteFile n c) \<Longrightarrow> emits P (write_file n c)"
  by (simp add: emits_def sat_write_file)

lemma emits_if: "(c \<Longrightarrow> emits P m) \<Longrightarrow> (\<not> c \<Longrightarrow> emits P n) \<Longrightarrow> emits P (if c then m else n)"
  by simp

lemmas emits_intros = emits_bnd emits_try_assert emits_ret emits_raise emits_lift emits_item
  emits_kw_item emits_psql emits_psql_unit emits_test_user_exists emits_test_db_exists
  emits_new_token emits_write_file emits_if

lemma emitsD: "emits P m \<Longrightarrow> m w = (r, w', tr) \<Longrightarrow> e \<in> set tr \<Longrightarrow> P e"
  by (auto simp: emits_def list_all_iff dest: satD)

subsection \<open>Failure only by a failed command\<close>










lemma fails_item: "map_of d k \<noteq> None \<Longrightarrow> fails_by_command (item d k)"
  unfolding fails_by_command_def by (rule sat_item) simp_all



subsection \<open>The laws of sequencing\<close>

lemma ret_bnd: "bnd (ret a) f = f a"
  by (rule ext) (simp add: bnd_def ret_def after_def split: prod.splits)

lemma bnd_assoc: "bnd (bnd m f) g = bnd m (\<lambda>a. bnd (f a) g)"
  by (rule ext) (auto simp: bnd_def after_def split: prod.splits sum.splits)

section \<open>Provisioning one database\<close>

lemma returns_bnd: "(\<And>a. returns R (f a)) \<Longrightarrow> returns R (bnd m f)"
  unfolding returns_def
  by (rule sat_bnd) (auto simp: sat_def split: sum.split)

lemma returns_ret: "R a \<Longrightarrow> returns R (ret a)"
  by (simp add: returns_def sat_ret)

lemma returnsD: "returns R m \<Longrightarrow> m w = (Inr a, w', tr) \<Longrightarrow> R a"
  by (auto simp: returns_def dest: satD)

lemma emits_run: "emits P m \<Longrightarrow> m w = (r, w', l) \<Longrightarrow> list_all P l"
  by (auto simp: emits_def dest: satD)

lemma emits_ensure_member:
  "(\<And>r. P (Psql (SelectRole m) conn r)) \<Longrightarrow> (\<And>r. P (Psql (CreateRole m) conn r))
   \<Longrightarrow> emits P (ensure_member os conn m)"
  unfolding ensure_member_def by (intro emits_intros) simp_all

lemma emits_auth_secret_of: "(\<And>s. P (Token 32 s)) \<Longrightarrow> emits P (auth_secret_of os d)"
  unfolding auth_secret_of_def by (auto intro!: emits_intros split: option.split)

lemma emits_ensure_database:
  "(\<And>c r. \<not> about_role c \<Longrightarrow> P (Psql c conn r))
   \<Longrightarrow> emits P (ensure_database os conn dr db ow)"
  unfolding ensure_database_def Let_def by (intro emits_intros) simp_all

lemma emits_grant_and_configure:
  "(\<And>c kw r. \<not> about_role c \<Longrightarrow> \<not> creates_or_changes c \<Longrightarrow> P (Psql c kw r))
   \<Longrightarrow> emits P (grant_and_configure os conn db m ow cl s)"
  unfolding grant_and_configure_def by (intro emits_intros) simp_all





lemma user_conn_key:
  "k \<noteq> ''user'' \<Longrightarrow> k \<noteq> ''password'' \<Longrightarrow> map_of (user_conn conn u p) k = map_of conn k"
  by (simp add: user_conn_def update_conv')








lemma names_about: "names u (Psql c kw r) \<Longrightarrow> about_role c"
  by (cases c) simp_all

lemma setup_role_supplied:
  assumes u: "map_of data usert = Some u"
    and p: "map_of data (usert @ ''_password'') = Some p" "p \<noteq> []"
    and nk: "map_of conn ''role'' = None"
    and run: "setup_role os conn usert data w = (r, w', l)"
  shows "list_all (names u) l \<and> list_all (\<lambda>e. \<not> is_password_token e) l
       \<and> (\<forall>d. r = Inr d \<longrightarrow> d = data)
       \<and> ((\<exists>res. l = [Psql (SelectRole u) (user_conn conn u p) res] \<and> res \<noteq> Inl AssertionError
                \<and> (\<forall>e. res = Inl e \<longrightarrow> r = Inl e))
         \<or> (\<exists>e. l = [Psql (SelectRole u) (user_conn conn u p) (Inl AssertionError),
                      Psql (SelectRole u) conn (Inl e)] \<and> r = Inl e)
         \<or> (\<exists>out res. l = [Psql (SelectRole u) (user_conn conn u p) (Inl AssertionError),
                      Psql (SelectRole u) conn (Inr out),
                      Psql (if strip out = u then AlterRolePassword u (extra_perms usert) p
                            else CreateUser u (extra_perms usert) p) conn res]
                \<and> (\<forall>e. res = Inl e \<longrightarrow> r = Inl e)))"
proof -
  let ?uc = "user_conn conn u p"
  have k: "map_of ?uc ''role'' = None"
    using nk by (simp add: user_conn_key)
  have eq: "setup_role os conn usert data
            = try_assert (test_user_exists os u ?uc) (\<lambda>_. ret data)
                (bnd (create_or_alter os conn usert u p) (\<lambda>_. ret data))"
    by (simp add: setup_role_def item_def u p ret_bnd)
  obtain r1 w1 where a: "psql_command os (render (SelectRole u)) ?uc w = (r1, w1)" by force
  obtain r2 w2 where b: "psql_command os (render (SelectRole u)) conn w1 = (r2, w2)" by force
  note defs = eq try_assert_def test_user_exists_def create_or_alter_def psql_unit_def k nk
    bnd_def psql_def ret_def after_def
  show ?thesis
  proof (cases r1)
    case (Inr out)
    with run a show ?thesis by (auto simp: defs simp del: render.simps)
  next
    case e: (Inl e)
    show ?thesis
    proof (cases "e = AssertionError")
      case False
      with run a e show ?thesis by (auto simp: defs simp del: render.simps)
    next
      case True
      show ?thesis
      proof (cases r2)
        case (Inl e2)
        with run a b e True show ?thesis by (auto simp: defs simp del: render.simps)
      next
        case (Inr out)
        obtain r3 w3 where c: "psql_command os
            (render (if strip out = u then AlterRolePassword u (extra_perms usert) p
                     else CreateUser u (extra_perms usert) p)) conn w2 = (r3, w3)" by force
        from run a b c e True Inr show ?thesis
          by (cases r3; cases "strip out = u") (auto simp: defs simp del: render.simps)
      qed
    qed
  qed
qed

lemma bnd_run:
  "bnd m f w = (r, w', tr) \<Longrightarrow>
     (\<exists>e. m w = (Inl e, w', tr) \<and> r = Inl e)
   \<or> (\<exists>a w1 l1 l2. m w = (Inr a, w1, l1) \<and> f a w1 = (r, w', l2) \<and> tr = l1 @ l2)"
  by (auto simp: bnd_def after_def split: prod.splits sum.splits)

lemma names_other: "names v e \<Longrightarrow> v \<noteq> u \<Longrightarrow> \<not> names u e"
  by (cases "(v, e)" rule: names.cases) auto

lemma quiet_segment:
  "list_all (\<lambda>e. \<not> names u e \<and> \<not> is_password_token e) l
   \<Longrightarrow> role_events u l = [] \<and> filter is_password_token l = []"
  by (induction l) (simp_all add: role_events_def)

lemma no_password_token: "list_all (\<lambda>e. \<not> is_password_token e) l \<Longrightarrow> filter is_password_token l = []"
  by (induction l) simp_all

lemma setup_role_other:
  assumes ne: "\<forall>v. map_of data usert = Some v \<longrightarrow> v \<noteq> u"
    and nk: "map_of conn ''role'' = None"
    and run: "setup_role os conn usert data w = (r, w', l)"
  shows "list_all (\<lambda>e. \<not> names u e) l
       \<and> length (filter is_password_token l) \<le> (if has_pass data usert then 0 else 1)
       \<and> (\<forall>d. r = Inr d \<longrightarrow> (\<forall>k. k \<noteq> usert @ ''_password'' \<longrightarrow> map_of d k = map_of data k))"
proof (cases "map_of data usert")
  case None
  with run show ?thesis
    by (auto simp: setup_role_def item_def raise_def bnd_def)
next
  case (Some v)
  with ne have vu: "v \<noteq> u" by simp
  show ?thesis
  proof (cases "has_pass data usert")
    case True
    then obtain p where p: "map_of data (usert @ ''_password'') = Some p" "p \<noteq> []"
      by (auto simp: has_pass_def split: option.splits)
    from setup_role_supplied[OF Some p nk run]
    have "list_all (names v) l" "list_all (\<lambda>e. \<not> is_password_token e) l"
      "\<forall>d. r = Inr d \<longrightarrow> d = data"
      by simp_all
    with vu True show ?thesis
      by (auto simp: no_password_token list_all_iff dest: names_other)
  next
    case False
    then have eq: "setup_role os conn usert data
        = bnd (new_token os 16) (\<lambda>password.
            bnd (create_or_alter os conn usert v password)
              (\<lambda>_. ret (AList.update (usert @ ''_password'') password data)))"
      by (auto simp: setup_role_def item_def Some ret_bnd has_pass_def split: option.splits)
    have q: "emits (\<lambda>e. \<not> names u e \<and> \<not> is_password_token e)
               (bnd (create_or_alter os conn usert v pw)
                  (\<lambda>_. ret (AList.update (usert @ ''_password'') pw data)))" for pw
      unfolding create_or_alter_def using vu by (intro emits_intros) simp_all
    have rt: "returns (\<lambda>d. \<forall>k. k \<noteq> usert @ ''_password'' \<longrightarrow> map_of d k = map_of data k)
               (bnd (create_or_alter os conn usert v pw)
                  (\<lambda>_. ret (AList.update (usert @ ''_password'') pw data)))" for pw
      by (intro returns_bnd returns_ret) (simp add: AList.update_conv')
    from bnd_run[OF run[unfolded eq]] obtain pw w1 l2
      where t: "new_token os 16 w = (Inr pw, w1, [Token 16 pw])"
        and c: "bnd (create_or_alter os conn usert v pw)
                  (\<lambda>_. ret (AList.update (usert @ ''_password'') pw data)) w1 = (r, w', l2)"
        and l: "l = Token 16 pw # l2"
      by (auto simp: new_token_def split: prod.splits)
    from quiet_segment[OF emits_run[OF q c]] emits_run[OF q c] returnsD[OF rt] c l False
    show ?thesis
      by (auto simp: list_all_iff)
  qed
qed

lemma finish_quiet:
  "emits (\<lambda>e. \<not> names u e \<and> \<not> is_password_token e)
     (bnd (auth_secret_of os d2) (\<lambda>auth_secret.
        bnd (item (AList.update ''auth_secret'' auth_secret d2) ''owner'') (\<lambda>owner.
        bnd (ensure_database os conn dr dbn owner) (\<lambda>_.
        bnd (item (AList.update ''auth_secret'' auth_secret d2) ''client'') (\<lambda>client.
        bnd (grant_and_configure os conn dbn m owner client auth_secret)
          (\<lambda>_. ret (AList.update ''auth_secret'' auth_secret d2)))))))"
  by (intro emits_bnd emits_ret emits_item emits_auth_secret_of emits_ensure_database
        emits_grant_and_configure)
     (auto dest: names_about)

lemma finish_returns:
  "returns (\<lambda>d. \<forall>k. k \<noteq> ''auth_secret'' \<longrightarrow> map_of d k = map_of d2 k)
     (bnd (auth_secret_of os d2) (\<lambda>auth_secret.
        bnd (item (AList.update ''auth_secret'' auth_secret d2) ''owner'') (\<lambda>owner.
        bnd (ensure_database os conn dr dbn owner) (\<lambda>_.
        bnd (item (AList.update ''auth_secret'' auth_secret d2) ''client'') (\<lambda>client.
        bnd (grant_and_configure os conn dbn m owner client auth_secret)
          (\<lambda>_. ret (AList.update ''auth_secret'' auth_secret d2)))))))"
  by (intro returns_bnd returns_ret) (simp add: AList.update_conv')

lemma create_database_steps:
  assumes db: "map_of data ''database'' = Some dbn"
  shows "create_database os data conn dr =
     bnd (ensure_member os conn (dbn @ ''__member'')) (\<lambda>_.
     bnd (setup_role os conn ''owner'' data) (\<lambda>d1.
     bnd (setup_role os conn ''client'' d1) (\<lambda>d2.
     bnd (auth_secret_of os d2) (\<lambda>auth_secret.
        bnd (item (AList.update ''auth_secret'' auth_secret d2) ''owner'') (\<lambda>owner.
        bnd (ensure_database os conn dr dbn owner) (\<lambda>_.
        bnd (item (AList.update ''auth_secret'' auth_secret d2) ''client'') (\<lambda>client.
        bnd (grant_and_configure os conn dbn (dbn @ ''__member'') owner client auth_secret)
          (\<lambda>_. ret (AList.update ''auth_secret'' auth_secret d2)))))))))"
  by (simp add: create_database_def item_def db ret_bnd bnd_assoc Let_def)

lemma pipeline:
  assumes "bnd A (\<lambda>_. bnd B (\<lambda>d1. bnd (C d1) F)) w = (r, w', tr)"
  obtains
    (member) e where "A w = (Inl e, w', tr)" "r = Inl e"
  | (first) a wa la e lb where "A w = (Inr a, wa, la)" "B wa = (Inl e, w', lb)" "r = Inl e"
      "tr = la @ lb"
  | (second) a wa la d1 wb lb e lc where "A w = (Inr a, wa, la)" "B wa = (Inr d1, wb, lb)"
      "C d1 wb = (Inl e, w', lc)" "r = Inl e" "tr = la @ lb @ lc"
  | (rest) a wa la d1 wb lb d2 wc lc lf where "A w = (Inr a, wa, la)" "B wa = (Inr d1, wb, lb)"
      "C d1 wb = (Inr d2, wc, lc)" "F d2 wc = (r, w', lf)" "tr = la @ lb @ lc @ lf"
proof -
  from bnd_run[OF assms] show thesis
  proof (elim disjE exE conjE)
    fix e assume "A w = (Inl e, w', tr)" "r = Inl e"
    then show thesis by (rule member)
  next
    fix a wa la l2
    assume a: "A w = (Inr a, wa, la)" and b: "bnd B (\<lambda>d1. bnd (C d1) F) wa = (r, w', l2)"
      and t: "tr = la @ l2"
    from bnd_run[OF b] show thesis
    proof (elim disjE exE conjE)
      fix e assume "B wa = (Inl e, w', l2)" "r = Inl e"
      with a t show thesis by (intro first)
    next
      fix d1 wb lb l3
      assume b1: "B wa = (Inr d1, wb, lb)" and c: "bnd (C d1) F wb = (r, w', l3)"
        and t2: "l2 = lb @ l3"
      from bnd_run[OF c] show thesis
      proof (elim disjE exE conjE)
        fix e assume "C d1 wb = (Inl e, w', l3)" "r = Inl e"
        with a b1 t t2 show thesis by (intro second) simp_all
      next
        fix d2 wc lc lf
        assume "C d1 wb = (Inr d2, wc, lc)" "F d2 wc = (r, w', lf)" "l3 = lc @ lf"
        with a b1 t t2 show thesis by (intro rest) simp_all
      qed
    qed
  qed
qed

lemma role_events_none: "list_all (\<lambda>e. \<not> names u e) l \<Longrightarrow> role_events u l = []"
  by (induction l) (simp_all add: role_events_def)

lemma role_events_all: "list_all (names u) l \<Longrightarrow> role_events u l = l"
  by (induction l) (simp_all add: role_events_def)

lemma role_events_append: "role_events u (l @ l') = role_events u l @ role_events u l'"
  by (simp add: role_events_def)


text \<open>
  Claim C3, as amended. Take one of the two roles of \<open>create_database\<close>, the owner or the
  client, with a password supplied in the input data, the names of the owner, the client
  and the member group being distinct. The effects of the run on that role
  (\<open>role_events\<close>: its probes and the commands that set its password) are one of:
  none, the run having failed before it reached the role; the probe under the role's own
  credentials alone, when that probe does not raise an assertion error; that probe raising
  an assertion error, then the administrator's probe of the role, which fails; or that
  probe raising an assertion error, the administrator's probe, and then
  \<^verbatim>\<open>ALTER ROLE\<close> with the supplied password when the administrator's probe reported the
  role, \<^verbatim>\<open>CREATE USER\<close> with the supplied password otherwise. A probe or command that
  fails ends the run with its error. The data returned keep the supplied password, and the
  run generates no password but, at most, one for the other role when the data supply none
  for it.
\<close>

theorem supplied_password_is_only_verified:
  assumes db: "map_of data ''database'' = Some dbn"
    and ow: "map_of data ''owner'' = Some ow"
    and cl: "map_of data ''client'' = Some cl"
    and dist: "ow \<noteq> cl" "ow \<noteq> dbn @ ''__member''" "cl \<noteq> dbn @ ''__member''"
    and ut: "usert = ''owner'' \<and> u = ow \<and> other = ''client''
             \<or> usert = ''client'' \<and> u = cl \<and> other = ''owner''"
    and p: "map_of data (usert @ ''_password'') = Some p" "p \<noteq> []"
    and nk: "map_of conn ''role'' = None"
    and run: "create_database os data conn dr w = (r, w', tr)"
  shows "(role_events u tr = [] \<and> isl r
          \<or> (\<exists>res. role_events u tr = [Psql (SelectRole u) (user_conn conn u p) res]
                \<and> res \<noteq> Inl AssertionError \<and> (\<forall>e. res = Inl e \<longrightarrow> r = Inl e))
          \<or> (\<exists>e. role_events u tr
                     = [Psql (SelectRole u) (user_conn conn u p) (Inl AssertionError),
                        Psql (SelectRole u) conn (Inl e)] \<and> r = Inl e)
          \<or> (\<exists>out res. role_events u tr
                     = [Psql (SelectRole u) (user_conn conn u p) (Inl AssertionError),
                        Psql (SelectRole u) conn (Inr out),
                        Psql (if strip out = u then AlterRolePassword u (extra_perms usert) p
                              else CreateUser u (extra_perms usert) p) conn res]
                \<and> (\<forall>e. res = Inl e \<longrightarrow> r = Inl e)))
       \<and> (\<forall>d. r = Inr d \<longrightarrow> map_of d (usert @ ''_password'') = Some p)
       \<and> length (filter is_password_token tr) \<le> (if has_pass data other then 0 else 1)"
proof -
  define S :: "event list \<Rightarrow> error + sdict \<Rightarrow> bool" where
    "S = (\<lambda>l r.
       (\<exists>res. l = [Psql (SelectRole u) (user_conn conn u p) res]
                \<and> res \<noteq> Inl AssertionError \<and> (\<forall>e. res = Inl e \<longrightarrow> r = Inl e))
     \<or> (\<exists>e. l = [Psql (SelectRole u) (user_conn conn u p) (Inl AssertionError),
                        Psql (SelectRole u) conn (Inl e)] \<and> r = Inl e)
     \<or> (\<exists>out res. l = [Psql (SelectRole u) (user_conn conn u p) (Inl AssertionError),
                        Psql (SelectRole u) conn (Inr out),
                        Psql (if strip out = u then AlterRolePassword u (extra_perms usert) p
                              else CreateUser u (extra_perms usert) p) conn res]
                \<and> (\<forall>e. res = Inl e \<longrightarrow> r = Inl e)))"
  have S_later: "S l r2" if "S l r1" "\<And>e. r1 = Inl e \<Longrightarrow> r2 = Inl e" for l r1 r2
  proof (cases r1)
    case (Inl e)
    with that show ?thesis by simp
  next
    case (Inr d)
    with that(1) show ?thesis unfolding S_def by fastforce
  qed
  have supplied: "list_all (names u) l \<and> filter is_password_token l = [] \<and> S l rr
                  \<and> (\<forall>d. rr = Inr d \<longrightarrow> d = dd)"
    if "setup_role os conn usert dd ww = (rr, ww', l)" "map_of dd usert = Some u"
       "map_of dd (usert @ ''_password'') = Some p" for dd ww rr ww' l
    using setup_role_supplied[OF that(2) that(3) p(2) nk that(1)]
    unfolding S_def by (simp add: no_password_token)
  have mu: "dbn @ ''__member'' \<noteq> u" using dist ut by auto
  have "emits (\<lambda>e. \<not> names u e \<and> \<not> is_password_token e) (ensure_member os conn (dbn @ ''__member''))"
    by (intro emits_ensure_member) (simp_all add: mu)
  note quietA = quiet_segment[OF emits_run[OF this]]
  note quietF = quiet_segment[OF emits_run[OF finish_quiet]]
  note retF = returnsD[OF finish_returns]
  let ?goal = "\<lambda>l r. (l = [] \<and> isl r \<or> S l r)"
  have main: "?goal (role_events u tr) r
       \<and> (\<forall>d. r = Inr d \<longrightarrow> map_of d (usert @ ''_password'') = Some p)
       \<and> length (filter is_password_token tr) \<le> (if has_pass data other then 0 else 1)"
    using ut
  proof (elim disjE conjE)
    assume t: "usert = ''owner''" "u = ow" "other = ''client''"
    from run[unfolded create_database_steps[OF db]] show ?thesis
    proof (cases rule: pipeline)
      case (member e)
      with quietA[OF member(1)] show ?thesis by simp
    next
      case (first a wa la e lb)
      from supplied[OF first(2)[folded t(1)]] ow p t
      have "list_all (names u) lb" "filter is_password_token lb = []" "S lb r"
        using first(3) by auto
      with quietA[OF first(1)] first(3,4) show ?thesis
        by (simp add: role_events_append role_events_all)
    next
      case (second a wa la d1 wb lb e lc)
      from supplied[OF second(2)[folded t(1)]] ow p t
      have b: "list_all (names u) lb" "filter is_password_token lb = []" "S lb (Inr d1)" "d1 = data"
        by auto
      have c: "list_all (\<lambda>e. \<not> names u e) lc"
         "length (filter is_password_token lc) \<le> (if has_pass data ''client'' then 0 else 1)"
        using setup_role_other[OF _ nk second(3), of u] b(4) cl dist t by simp_all
      from S_later[OF b(3), of r] have "S lb r" by simp
      with quietA[OF second(1)] second(4,5) b c t show ?thesis
        by (simp add: role_events_append role_events_all role_events_none)
    next
      case (rest a wa la d1 wb lb d2 wc lc lf)
      from supplied[OF rest(2)[folded t(1)]] ow p t
      have b: "list_all (names u) lb" "filter is_password_token lb = []" "S lb (Inr d1)" "d1 = data"
        by auto
      have c: "list_all (\<lambda>e. \<not> names u e) lc"
         "length (filter is_password_token lc) \<le> (if has_pass data ''client'' then 0 else 1)"
         "\<forall>k. k \<noteq> ''client'' @ ''_password'' \<longrightarrow> map_of d2 k = map_of data k"
        using setup_role_other[OF _ nk rest(3), of u] b(4) cl dist t by simp_all
      from S_later[OF b(3), of r] have s: "S lb r" by simp
      have keep: "\<forall>d. r = Inr d \<longrightarrow> map_of d (usert @ ''_password'') = Some p"
      proof (intro allI impI)
        fix d assume "r = Inr d"
        with retF[of os d2 conn dr dbn "dbn @ ''__member''" wc d w' lf] rest(4)
        have "map_of d ''owner_password'' = map_of d2 ''owner_password''" by simp
        with c(3) p t show "map_of d (usert @ ''_password'') = Some p" by simp
      qed
      from quietA[OF rest(1)] quietF[OF rest(4)] rest(5) b c s t keep show ?thesis
        by (simp add: role_events_append role_events_all role_events_none)
    qed
  next
    assume t: "usert = ''client''" "u = cl" "other = ''owner''"
    from run[unfolded create_database_steps[OF db]] show ?thesis
    proof (cases rule: pipeline)
      case (member e)
      with quietA[OF member(1)] show ?thesis by simp
    next
      case (first a wa la e lb)
      have b: "list_all (\<lambda>e. \<not> names u e) lb"
         "length (filter is_password_token lb) \<le> (if has_pass data ''owner'' then 0 else 1)"
        using setup_role_other[OF _ nk first(2), of u] ow dist t by simp_all
      with quietA[OF first(1)] first(3,4) t show ?thesis
        by (simp add: role_events_append role_events_none)
    next
      case (second a wa la d1 wb lb e lc)
      have b: "list_all (\<lambda>e. \<not> names u e) lb"
         "length (filter is_password_token lb) \<le> (if has_pass data ''owner'' then 0 else 1)"
         "\<forall>k. k \<noteq> ''owner'' @ ''_password'' \<longrightarrow> map_of d1 k = map_of data k"
        using setup_role_other[OF _ nk second(2), of u] ow dist t by simp_all
      from b(3) cl p t have d1: "map_of d1 usert = Some u" "map_of d1 (usert @ ''_password'') = Some p"
        by simp_all
      from supplied[OF second(3)[folded t(1)] d1] second(4)
      have c: "list_all (names u) lc" "filter is_password_token lc = []" "S lc r"
        by auto
      with quietA[OF second(1)] second(4,5) b t show ?thesis
        by (simp add: role_events_append role_events_all role_events_none)
    next
      case (rest a wa la d1 wb lb d2 wc lc lf)
      have b: "list_all (\<lambda>e. \<not> names u e) lb"
         "length (filter is_password_token lb) \<le> (if has_pass data ''owner'' then 0 else 1)"
         "\<forall>k. k \<noteq> ''owner'' @ ''_password'' \<longrightarrow> map_of d1 k = map_of data k"
        using setup_role_other[OF _ nk rest(2), of u] ow dist t by simp_all
      from b(3) cl p t have d1: "map_of d1 usert = Some u" "map_of d1 (usert @ ''_password'') = Some p"
        by simp_all
      from supplied[OF rest(3)[folded t(1)] d1]
      have c: "list_all (names u) lc" "filter is_password_token lc = []" "S lc (Inr d2)" "d2 = d1"
        by auto
      from S_later[OF c(3), of r] have s: "S lc r" by simp
      have keep: "\<forall>d. r = Inr d \<longrightarrow> map_of d (usert @ ''_password'') = Some p"
      proof (intro allI impI)
        fix d assume "r = Inr d"
        with retF[of os d2 conn dr dbn "dbn @ ''__member''" wc d w' lf] rest(4)
        have "map_of d ''client_password'' = map_of d2 ''client_password''" by simp
        with c(4) d1 t show "map_of d (usert @ ''_password'') = Some p" by simp
      qed
      from quietA[OF rest(1)] quietF[OF rest(4)] rest(5) b c s t keep show ?thesis
        by (simp add: role_events_append role_events_all role_events_none)
    qed
  qed
  then show ?thesis unfolding S_def by blast
qed

text \<open>
  The claim as stated fails: when the role cannot log in with the supplied password, the
  \<^verbatim>\<open>except AssertionError: pass\<close> of line 93 lets the run go on to create the role.
\<close>

theorem supplied_password_counterexample:
  "map_of stored_data ''owner_password'' = Some ''po''
   \<and> Psql (CreateUser ''app__owner'' ''CREATEROLE'' ''po'') [] (Inr [])
       \<in> set (snd (snd (create_database rejecting_os stored_data [] False 0)))"
  by code_simp

theorem supplied_password_is_only_verified_witness:
  "role_events ''app__owner'' (snd (snd (create_database rejecting_os stored_data [] False 0)))
     = [Psql (SelectRole ''app__owner'') (user_conn [] ''app__owner'' ''po'') (Inl AssertionError),
        Psql (SelectRole ''app__owner'') [] (Inr []),
        Psql (CreateUser ''app__owner'' ''CREATEROLE'' ''po'') [] (Inr [])]
   \<and> (\<exists>d. fst (create_database rejecting_os stored_data [] False 0) = Inr d
            \<and> map_of d ''owner_password'' = Some ''po'')
   \<and> filter is_password_token (snd (snd (create_database rejecting_os stored_data [] False 0))) = []"
proof -
  have run: "create_database rejecting_os stored_data [] False 0
             = (fst (create_database rejecting_os stored_data [] False 0),
                fst (snd (create_database rejecting_os stored_data [] False 0)),
                snd (snd (create_database rejecting_os stored_data [] False 0)))"
    by simp
  have ev: "role_events ''app__owner'' (snd (snd (create_database rejecting_os stored_data [] False 0)))
     = [Psql (SelectRole ''app__owner'') (user_conn [] ''app__owner'' ''po'') (Inl AssertionError),
        Psql (SelectRole ''app__owner'') [] (Inr []),
        Psql (CreateUser ''app__owner'' ''CREATEROLE'' ''po'') [] (Inr [])]"
    by code_simp
  have "\<not> isl (fst (create_database rejecting_os stored_data [] False 0))"
    by code_simp
  then obtain d where d: "fst (create_database rejecting_os stored_data [] False 0) = Inr d"
    by (cases "fst (create_database rejecting_os stored_data [] False 0)") simp_all
  have hp: "has_pass stored_data ''client''"
    by (simp add: has_pass_def stored_data_def)
  from supplied_password_is_only_verified[of stored_data "''app''" "''app__owner''"
      "''app__client''" "''owner''" "''app__owner''" "''client''" "''po''" "[]" rejecting_os
      False 0, OF _ _ _ _ _ _ _ _ _ _ run] d hp
  have "map_of d ''owner_password'' = Some ''po''
        \<and> filter is_password_token (snd (snd (create_database rejecting_os stored_data [] False 0))) = []"
    by (simp add: stored_data_def)
  with ev d show ?thesis by simp
qed

text \<open>
  Claim C4. With \<^verbatim>\<open>dropdb\<close> set, a run of lines 111 to 124 that returns has dropped
  the database that the probe reported, then the roles that the pattern query returned,
  and has created the database with the expected owner.
\<close>

lemma dropdb_recreates_database:
  assumes "ensure_database os conn True db ow w = (Inr (), w', tr)"
  shows "\<exists>out pre res. tr = Psql (SelectDb db) conn (Inr out) # pre @ [Psql (CreateDatabase db ow) conn (Inr res)]
      \<and> (strip out = db \<longrightarrow>
           (\<exists>roles r1 post. pre = Psql (SelectExtraRoles db) conn (Inr roles)
                                # Psql (DropDatabase db) conn (Inr r1) # post
              \<and> (strip roles = [] \<longrightarrow> post = [])
              \<and> (strip roles \<noteq> [] \<longrightarrow> (\<exists>r2. post = [Psql (DropRole (strip roles)) conn (Inr r2)]))))
      \<and> (strip out \<noteq> db \<longrightarrow> pre = [])"
  using assms
  by (auto simp: ensure_database_def test_db_exists_def psql_unit_def bnd_def psql_def ret_def
        raise_def after_def Let_def split: prod.splits sum.splits if_splits)

text \<open>
  Without \<^verbatim>\<open>dropdb\<close>, when the database exists and belongs to another role, the
  command of line 133 is issued. Its text has no object kind after \<^verbatim>\<open>ALTER\<close>, unlike
  the commands of lines 139 and 144: the texts of the whole run are
\<close>

theorem alter_owner_command_malformed:
  "commands (snd (snd (create_database foreign_owner_os stored_data [] False 0)))
   = [render (SelectRole ''app__member''), render (CreateRole ''app__member''),
      render (SelectRole ''app__owner''), render (SelectRole ''app__client''),
      render (SelectDb ''app''), render (SelectOwner ''app''),
      ''ALTER app SET OWNER TO app__owner'',
      render (AlterGroupAddUser ''app__owner'' ''app__client''),
      render (AlterGroupAddUser ''app__member'' ''app__client''),
      render (AlterDatabaseJwt ''app'' ''s''),
      render (AlterSchemaOwner ''app__owner'')]"
  by code_simp

section \<open>Credential resolution\<close>

text \<open>
  Claim C6. On a host where the first probe (with sudo) fails, the operator is asked for a
  role and a password and the second probe succeeds. That probe is made without the sudo
  flag (line 67), and the parameters returned (line 73) carry the flag of the first
  probe: they are not the parameters of the probe that succeeded, and the same probe made
  with them fails.
\<close>

theorem returned_params_differ_from_probe:
  "get_conn_params sudo_denied_os
     [(''host'', VStr ''localhost''), (''port'', VInt 5432), (''password'', VNone),
      (''sudo'', VNone)] 0
   = Some (Inr [(''user'', VStr ''admin''), (''host'', VStr ''localhost''),
                (''password'', VStr []), (''sudo'', VBool True), (''port'', VInt 5432)],
           0,
           [Psql (SelectDb ''postgres'')
              [(''user'', VStr ''postgres''), (''host'', VStr ''localhost''),
               (''password'', VNone), (''sudo'', VBool True), (''port'', VInt 5432)]
              (Inl AssertionError),
            Input (prompt_role (VStr ''postgres'')) (Inr ''admin''),
            Getpass ''Password for role admin: '' (Inr []),
            Psql (SelectDb ''postgres'')
              [(''user'', VStr ''admin''), (''password'', VStr []),
               (''host'', VStr ''localhost''), (''port'', VInt 5432)]
              (Inr [])])
   \<and> fst (psql_command sudo_denied_os (render (SelectDb ''postgres''))
            [(''user'', VStr ''admin''), (''host'', VStr ''localhost''),
             (''password'', VStr []), (''sudo'', VBool True), (''port'', VInt 5432)] 0)
     = Inl AssertionError"
  by code_simp

section \<open>Startup and the application name\<close>











lemma test_db_exists_trace:
  "snd (snd (test_db_exists os t kw w)) = []
   \<or> (\<exists>res. snd (snd (test_db_exists os t kw w)) = [Psql (SelectDb t) kw res])"
  by (auto simp: test_db_exists_def bnd_def psql_def ret_def raise_def after_def
      split: prod.splits sum.splits)










end
